theory Spec2Isabelle
  imports Complex_Main "HOL-Library.Sublist" "HOL-Library.Log_Nat"
begin

section \<open>Strings\<close>

text \<open>
  Review texts, column names and feature labels are Python \<open>str\<close> values. They are
  modelled as \<^typ>\<open>string\<close>, one \<^typ>\<open>char\<close> per character: the character whose code
  point is \<^term>\<open>of_char c :: nat\<close>. The texts of the model are thus those over the first
  256 code points (ASCII and the Latin-1 supplement).
\<close>

text \<open>\<open>text.find(sub)\<close>: the least index at which \<open>sub\<close> starts, or \<open>-1\<close>.\<close>

primrec find_from :: "string \<Rightarrow> string \<Rightarrow> nat \<Rightarrow> int" where
  "find_from sub [] i = (if sub = [] then int i else - 1)"
| "find_from sub (c # cs) i =
     (if prefix sub (c # cs) then int i else find_from sub cs (Suc i))"

definition py_find :: "string \<Rightarrow> string \<Rightarrow> int" where
  "py_find text sub = find_from sub text 0"

text \<open>\<open>sub in text\<close> on strings.\<close>

primrec str_in :: "string \<Rightarrow> string \<Rightarrow> bool" where
  "str_in sub [] = (sub = [])"
| "str_in sub (c # cs) = (prefix sub (c # cs) \<or> str_in sub cs)"

text \<open>\<open>text[a:b]\<close> for bounds that are not negative.\<close>

definition py_slice :: "string \<Rightarrow> int \<Rightarrow> int \<Rightarrow> string" where
  "py_slice text a b = take (nat (b - a)) (drop (nat a) text)"

section \<open>Context sentiment\<close>

datatype sentiment = Positive | Negative | Neutral

definition positive_words :: "string list" where
  "positive_words = [''good'', ''great'', ''excellent'', ''amazing'', ''love'', ''perfect'',
     ''awesome'', ''fantastic'', ''best'']"

definition negative_words :: "string list" where
  "negative_words = [''bad'', ''terrible'', ''awful'', ''hate'', ''worst'', ''horrible'',
     ''disappointing'', ''poor'', ''worst'']"

text \<open>\<open>sum(1 for word in words if word in context)\<close>\<close>

definition word_hits :: "string list \<Rightarrow> string \<Rightarrow> nat" where
  "word_hits ws context = sum_list (map (\<lambda>word. 1) (filter (\<lambda>word. str_in word context) ws))"

definition positive_count :: "string \<Rightarrow> nat" where
  "positive_count context = word_hits positive_words context"

definition negative_count :: "string \<Rightarrow> nat" where
  "negative_count context = word_hits negative_words context"

text \<open>The window \<open>text[context_start:context_end]\<close> around a feature found at \<open>feature_index\<close>.\<close>

definition context_window :: "string \<Rightarrow> string \<Rightarrow> int \<Rightarrow> string" where
  "context_window text feature feature_index =
     (let context_start = max 0 (feature_index - 50);
          context_end = min (int (length text)) (feature_index + int (length feature) + 50)
      in py_slice text context_start context_end)"

definition analyze_context_sentiment :: "string \<Rightarrow> string \<Rightarrow> sentiment" where
  "analyze_context_sentiment text feature =
     (let feature_index = py_find text feature in
      if feature_index = - 1 then Neutral
      else
        let context = context_window text feature feature_index in
        if positive_count context > negative_count context then Positive
        else if negative_count context > positive_count context then Negative
        else Neutral)"

section \<open>Feature extraction\<close>

text \<open>
  The script compiles its patterns from \<open>str\<close> values and passes no flags, so \<open>\w\<close> is the
  Unicode class: the underscore and the characters for which \<open>str.isalnum\<close> holds. Below
  256 these are the ASCII letters and digits, the letters of the Latin-1 supplement
  (\<open>0xC0\<close> to \<open>0xFF\<close> without the signs \<open>0xD7\<close> and \<open>0xF7\<close>, and \<open>0xAA\<close>, \<open>0xB5\<close>,
  \<open>0xBA\<close>), the superscript digits \<open>0xB2\<close>, \<open>0xB3\<close>, \<open>0xB9\<close> and the fractions \<open>0xBC\<close> to
  \<open>0xBE\<close>.
\<close>

definition is_word_char :: "char \<Rightarrow> bool" where
  "is_word_char c =
     (let n = (of_char c :: nat)
      in (97 \<le> n \<and> n \<le> 122) \<or> (65 \<le> n \<and> n \<le> 90) \<or> (48 \<le> n \<and> n \<le> 57) \<or> n = 95
         \<or> (192 \<le> n \<and> n \<noteq> 215 \<and> n \<noteq> 247)
         \<or> n = 170 \<or> n = 181 \<or> n = 186 \<or> n = 178 \<or> n = 179 \<or> n = 185
         \<or> (188 \<le> n \<and> n \<le> 190))"

text \<open>
  Whitespace, as \<open>str.split\<close>, \<open>str.strip\<close> and \<open>\s\<close> take it: the characters for which
  \<open>str.isspace\<close> holds, below 256 the controls \<open>0x09\<close> to \<open>0x0D\<close> and \<open>0x1C\<close> to \<open>0x1F\<close>,
  the space, the next-line control \<open>0x85\<close> and the no-break space \<open>0xA0\<close>.
\<close>

definition is_space :: "char \<Rightarrow> bool" where
  "is_space c =
     (let n = (of_char c :: nat)
      in (9 \<le> n \<and> n \<le> 13) \<or> (28 \<le> n \<and> n \<le> 32) \<or> n = 133 \<or> n = 160)"

text \<open>
  \<open>s.lower()\<close>: the capital letters are \<open>A\<close> to \<open>Z\<close> and, in the Latin-1 supplement,
  \<open>0xC0\<close> to \<open>0xDE\<close> without the multiplication sign \<open>0xD7\<close>; each has its small letter 32
  code points above it. Every other character below 256 is left as it is.
\<close>

definition lower_char :: "char \<Rightarrow> char" where
  "lower_char c =
     (let n = (of_char c :: nat)
      in if (65 \<le> n \<and> n \<le> 90) \<or> (192 \<le> n \<and> n \<le> 222 \<and> n \<noteq> 215)
         then char_of (n + 32) else c)"

definition py_lower :: "string \<Rightarrow> string" where
  "py_lower s = map lower_char s"

text \<open>\<open>s.split()\<close>: the maximal runs of characters that are not whitespace.\<close>

fun fields :: "string \<Rightarrow> string \<Rightarrow> string list" where
  "fields acc [] = [rev acc]"
| "fields acc (c # cs) = (if is_space c then rev acc # fields [] cs else fields (c # acc) cs)"

definition py_split :: "string \<Rightarrow> string list" where
  "py_split s = filter (\<lambda>w. w \<noteq> []) (fields [] s)"

text \<open>\<open>s.strip()\<close>\<close>

definition py_strip :: "string \<Rightarrow> string" where
  "py_strip s = rev (dropWhile is_space (rev (dropWhile is_space s)))"

text \<open>
  The regular expressions of the script all have the shape \<open>\b(w1|...|wn)\b\<close> or
  \<open>\b(w1|...|wn)\s*\<close>, where the alternatives are literal words except for the dot of
  \<open>user.friendly\<close>, which stands for any character but a newline. An alternative
  therefore matches a fixed number of characters.
\<close>

fun match_here :: "string \<Rightarrow> string \<Rightarrow> bool" where
  "match_here [] s = True"
| "match_here (p # ps) [] = False"
| "match_here (p # ps) (c # cs) =
     ((if p = CHR ''.'' then c \<noteq> CHR 0x0A else p = c) \<and> match_here ps cs)"

text \<open>\<open>\b\<close> at position \<open>i\<close> of \<open>s\<close>: exactly one of the two neighbours is a word character.\<close>

definition word_boundary :: "string \<Rightarrow> nat \<Rightarrow> bool" where
  "word_boundary s i =
     ((0 < i \<and> i \<le> length s \<and> is_word_char (s ! (i - 1)))
        \<noteq> (i < length s \<and> is_word_char (s ! i)))"

text \<open>\<open>re.search(r'\b(w1|...|wn)\b', s)\<close> finds a match.\<close>

definition re_search_words :: "string list \<Rightarrow> string \<Rightarrow> bool" where
  "re_search_words alts s =
     list_ex (\<lambda>i. word_boundary s i \<and>
                list_ex (\<lambda>alt. match_here alt (drop i s) \<and> word_boundary s (i + length alt)) alts)
       [0..<Suc (length s)]"

definition feature_patterns :: "(string \<times> string list) list" where
  "feature_patterns =
     [(''battery'', [''battery'', ''power'', ''charging'', ''charge'']),
      (''camera'', [''camera'', ''photo'', ''picture'', ''image'']),
      (''display'', [''screen'', ''display'', ''monitor'']),
      (''audio'', [''sound'', ''audio'', ''speaker'', ''music'', ''volume'']),
      (''design'', [''design'', ''look'', ''appearance'', ''style'', ''color'']),
      (''performance'', [''performance'', ''speed'', ''fast'', ''slow'', ''lag'']),
      (''price'', [''price'', ''cost'', ''value'', ''expensive'', ''cheap'', ''affordable'']),
      (''size'', [''size'', ''weight'', ''portable'', ''compact'', ''heavy'']),
      (''quality'', [''quality'', ''build'', ''material'', ''durability'']),
      (''usability'', [''easy'', ''difficult'', ''user.friendly'', ''interface'', ''setup'']),
      (''delivery'', [''delivery'', ''shipping'', ''packaging'', ''arrived'']),
      (''service'', [''service'', ''support'', ''help'', ''customer''])]"

text \<open>
  \<open>re.sub(r'\b(good|bad|great|poor|excellent|terrible)\s*', '', s)\<close>, from position
  \<open>i\<close> on: a match is dropped together with the whitespace after it, and the scan
  goes on behind it; any other character is kept.
\<close>

definition adjectives :: "string list" where
  "adjectives = [''good'', ''bad'', ''great'', ''poor'', ''excellent'', ''terrible'']"

definition adjective_at :: "string \<Rightarrow> nat \<Rightarrow> nat option" where
  "adjective_at s i =
     (if word_boundary s i
      then map_option length (List.find (\<lambda>alt. match_here alt (drop i s)) adjectives)
      else None)"

definition skip_spaces :: "string \<Rightarrow> nat \<Rightarrow> nat" where
  "skip_spaces s j = j + length (takeWhile is_space (drop j s))"

function re_sub_adjectives :: "string \<Rightarrow> nat \<Rightarrow> string" where
  "re_sub_adjectives s i =
     (if length s \<le> i then []
      else case adjective_at s i of
             Some n \<Rightarrow> re_sub_adjectives s (skip_spaces s (i + n))
           | None \<Rightarrow> s ! i # re_sub_adjectives s (Suc i))"
  by pat_completeness auto
termination
proof (relation "measure (\<lambda>(s, i). length s - i)")
  show "wf (measure (\<lambda>(s, i). length s - i))" by simp
next
  fix s :: string and i n :: nat
  assume i: "\<not> length s \<le> i" and n: "adjective_at s i = Some n"
  from n obtain k where "k < length adjectives" "n = length (adjectives ! k)"
    by (auto simp: adjective_at_def find_Some_iff split: if_splits)
  then have "adjectives ! k \<in> set adjectives" "n = length (adjectives ! k)"
    by simp_all
  then have "0 < n" by (auto simp: adjectives_def)
  then have "i < skip_spaces s (i + n)" by (simp add: skip_spaces_def)
  with i show "((s, skip_spaces s (i + n)), (s, i)) \<in> measure (\<lambda>(s, i). length s - i)"
    by simp
next
  fix s :: string and i :: nat
  assume "\<not> length s \<le> i"
  then show "((s, Suc i), (s, i)) \<in> measure (\<lambda>(s, i). length s - i)" by simp
qed

text \<open>The feature a bigram describes, when the bigram holds one of the four terms.\<close>

definition bigram_terms :: "string list" where
  "bigram_terms = [''good'', ''bad'', ''great'', ''poor'']"

definition bigram_step :: "string list \<Rightarrow> string \<times> string \<Rightarrow> string list" where
  "bigram_step review_features ww =
     (let bigram = fst ww @ '' '' @ snd ww in
      if list_ex (\<lambda>term. str_in term bigram) bigram_terms
      then let feature = py_strip (re_sub_adjectives bigram 0) in
           if length feature > 2 \<and> feature \<notin> set review_features
           then review_features @ [feature] else review_features
      else review_features)"

text \<open>The labels of one review: the matching patterns in table order, then the bigram features.\<close>

definition pattern_features :: "string \<Rightarrow> string list" where
  "pattern_features review_lower =
     map fst (filter (\<lambda>(feature_name, pattern). re_search_words pattern review_lower)
                feature_patterns)"

definition review_features :: "string \<Rightarrow> string list" where
  "review_features review =
     (let review_lower = py_lower review;
          words = py_split review_lower
      in foldl bigram_step (pattern_features review_lower) (zip words (tl words)))"

text \<open>
  \<open>Counter(all_features)\<close>: the distinct labels in the order they were first seen, each
  with the number of times it was seen.
\<close>

fun counter_add :: "string \<Rightarrow> (string \<times> nat) list \<Rightarrow> (string \<times> nat) list" where
  "counter_add x [] = [(x, 1)]"
| "counter_add x ((k, n) # kns) =
     (if k = x then (k, Suc n) # kns else (k, n) # counter_add x kns)"

definition counter :: "string list \<Rightarrow> (string \<times> nat) list" where
  "counter xs = foldl (\<lambda>c x. counter_add x c) [] xs"

text \<open>The reviews are the cells of the text column that are not missing.\<close>

definition extract_features_from_reviews :: "string list \<Rightarrow> (string \<times> nat) list" where
  "extract_features_from_reviews reviews = counter (concat (map review_features reviews))"

text \<open>
  \<open>sorted(xs, key=key, reverse=True)\<close>: descending by the key, entries with equal keys
  staying in their order. \<open>most_common(n)\<close> are the first \<open>n\<close> of the counts so sorted.
\<close>

definition sorted_desc :: "('a \<Rightarrow> 'k::{linorder,uminus}) \<Rightarrow> 'a list \<Rightarrow> 'a list" where
  "sorted_desc key xs = sort_key (\<lambda>x. - key x) xs"

definition most_common :: "nat \<Rightarrow> (string \<times> nat) list \<Rightarrow> (string \<times> nat) list" where
  "most_common n c = take n (sorted_desc (\<lambda>(k, v). int v) c)"

section \<open>Numbers\<close>

text \<open>
  A finite Python float is modelled by the rational number it denotes. An arithmetic
  operation on floats yields the exact result rounded to binary64: to the nearest
  number with a 53-bit significand, ties to the even one, with the exponent of the least
  bit not below \<open>-1074\<close>. Overflow to infinity is not modelled.
\<close>

definition rne :: "rat \<Rightarrow> int" where
  "rne x =
     (let f = \<lfloor>x\<rfloor>; d = x - of_int f
      in if d < 1 / 2 then f else if d > 1 / 2 then f + 1 else if even f then f else f + 1)"

text \<open>\<open>ilog2 x\<close> is the integer \<open>k\<close> with \<open>2 powi k \<le> x < 2 powi (k + 1)\<close>, for positive \<open>x\<close>.\<close>

definition ilog2 :: "rat \<Rightarrow> int" where
  "ilog2 x =
     (let (p, q) = quotient_of x; d = bitlen p - bitlen q
      in if 2 powi d \<le> x then d else d - 1)"

definition fl :: "rat \<Rightarrow> rat" where
  "fl x =
     (if x = 0 then 0
      else let e = max (ilog2 \<bar>x\<bar> - 52) (- 1074)
           in of_int (rne (x / 2 powi e)) * 2 powi e)"

definition fadd :: "rat \<Rightarrow> rat \<Rightarrow> rat" where
  "fadd x y = fl (x + y)"

definition fsub :: "rat \<Rightarrow> rat \<Rightarrow> rat" where
  "fsub x y = fl (x - y)"

definition fmul :: "rat \<Rightarrow> rat \<Rightarrow> rat" where
  "fmul x y = fl (x * y)"

text \<open>\<open>a / b\<close> on integers: the quotient, correctly rounded.\<close>

definition true_div :: "nat \<Rightarrow> nat \<Rightarrow> rat" where
  "true_div a b = fl (of_nat a / of_nat b)"

text \<open>
  \<open>np.mean(xs)\<close> of a list of floats that is not empty: numpy adds the elements up in
  binary64 and divides the sum by their number. Its sum of a contiguous array is the
  pairwise summation of its \<open>add\<close> loop: fewer than 8 elements are added one after the
  other, starting from zero; up to 128 elements are added into 8 running sums, element
  \<open>i\<close> into sum \<open>i mod 8\<close>, over the leading full blocks of 8, the sums are then combined
  two by two and the remaining elements added one after the other; a longer array is
  split at the multiple of 8 next below its middle, and the two parts are summed apart.
\<close>

definition add_blocks :: "rat list \<Rightarrow> rat list \<Rightarrow> rat list" where
  "add_blocks r a =
     foldl (\<lambda>r k. map2 fadd r (take 8 (drop (8 * k) a))) r [1..<length a div 8]"

function pairwise_sum :: "rat list \<Rightarrow> rat" where
  "pairwise_sum a =
     (if length a < 8 then foldl fadd 0 a
      else if length a \<le> 128 then
        (let r = add_blocks (take 8 a) a;
             res = fadd (fadd (fadd (r ! 0) (r ! 1)) (fadd (r ! 2) (r ! 3)))
                        (fadd (fadd (r ! 4) (r ! 5)) (fadd (r ! 6) (r ! 7)))
         in foldl fadd res (drop (length a - length a mod 8) a))
      else
        fadd (pairwise_sum (take (length a div 2 - length a div 2 mod 8) a))
             (pairwise_sum (drop (length a div 2 - length a div 2 mod 8) a)))"
  by pat_completeness auto
termination
proof (relation "measure length")
  show "wf (measure length)" by simp
next
  fix a :: "rat list"
  assume "\<not> length a < 8" and "\<not> length a \<le> 128"
  then show "(take (length a div 2 - length a div 2 mod 8) a, a) \<in> measure length"
    by simp
next
  fix a :: "rat list"
  assume "\<not> length a < 8" and big: "\<not> length a \<le> 128"
  have "length a div 2 mod 8 < 8" by simp
  moreover from big have "64 \<le> length a div 2" by simp
  ultimately have "0 < length a div 2 - length a div 2 mod 8" by linarith
  with big show "(drop (length a div 2 - length a div 2 mod 8) a, a) \<in> measure length"
    by simp
qed

definition np_mean :: "rat list \<Rightarrow> rat" where
  "np_mean xs = fl (pairwise_sum xs / of_nat (length xs))"

section \<open>The review table\<close>

text \<open>
  A table, as \<open>pd.read_csv\<close> returns it, is the list of its columns in table order, each
  with its name and its cells by row; the names are distinct, the columns equally long,
  and the rows are indexed from 0. A cell is missing (\<open>NaN\<close>) or is modelled by what the
  script observes of it: \<open>str(cell)\<close> and the number that \<open>float(cell)\<close> converts, absent
  where the conversion raises \<open>ValueError\<close>.
\<close>

datatype cell = NaN | Cell string "rat option"

type_synonym dataframe = "(string \<times> cell list) list"

datatype error = KeyError | ValueError

text \<open>\<open>df[col]\<close>, which raises \<open>KeyError\<close> for a name that is not a column.\<close>

definition column :: "dataframe \<Rightarrow> string \<Rightarrow> error + cell list" where
  "column df col = (case map_of df col of Some cells \<Rightarrow> Inr cells | None \<Rightarrow> Inl KeyError)"

definition len_df :: "dataframe \<Rightarrow> nat" where
  "len_df df = (case df of [] \<Rightarrow> 0 | (name, cells) # rest \<Rightarrow> length cells)"

text \<open>\<open>series.dropna().items()\<close>: the row index and the text of every cell present.\<close>

definition review_items :: "cell list \<Rightarrow> (nat \<times> string) list" where
  "review_items series =
     List.map_filter (\<lambda>(idx, c). case c of NaN \<Rightarrow> None | Cell s f \<Rightarrow> Some (idx, s))
       (enumerate 0 series)"

section \<open>Sentiment aggregation\<close>

record feature_record =
  count :: nat
  avg_rating :: rat
  positive_ratio :: rat
  negative_ratio :: rat
  neutral_ratio :: rat
  total_mentions :: nat

text \<open>
  The rating recorded for a row that mentions the feature. There is none when
  \<open>rating_col\<close> is \<open>None\<close> or empty, when the row is not in the index, or when the cell
  \<open>df.loc[idx, rating_col]\<close> is missing; the lookup raises \<open>KeyError\<close> for a name that is
  not a column, and \<open>float(rating)\<close> may raise \<open>ValueError\<close>. The float is the number of the
  cell rounded to binary64.
\<close>

definition rating_of :: "dataframe \<Rightarrow> string option \<Rightarrow> nat \<Rightarrow> error + rat option" where
  "rating_of df rating_col idx =
     (case rating_col of
        None \<Rightarrow> Inr None
      | Some col \<Rightarrow>
          if col = [] \<or> \<not> idx < len_df df then Inr None
          else (case column df col of
                  Inl e \<Rightarrow> Inl e
                | Inr cells \<Rightarrow>
                    (case (if idx < length cells then cells ! idx else NaN) of
                       NaN \<Rightarrow> Inr None
                     | Cell s None \<Rightarrow> Inl ValueError
                     | Cell s (Some rating) \<Rightarrow> Inr (Some (fl rating)))))"

text \<open>The inner loop over the reviews, for one feature.\<close>

fun scan_reviews :: "string \<Rightarrow> dataframe \<Rightarrow> string option \<Rightarrow> (nat \<times> string) list
    \<Rightarrow> rat list \<times> sentiment list \<Rightarrow> error + rat list \<times> sentiment list" where
  "scan_reviews feature df rating_col [] acc = Inr acc"
| "scan_reviews feature df rating_col ((idx, review) # rest) (feature_ratings, feature_sentiments) =
     (let review_lower = py_lower review in
      if str_in feature review_lower
      then (case rating_of df rating_col idx of
              Inl e \<Rightarrow> Inl e
            | Inr r \<Rightarrow>
                scan_reviews feature df rating_col rest
                  (case r of None \<Rightarrow> feature_ratings | Some rating \<Rightarrow> feature_ratings @ [rating],
                   feature_sentiments @ [analyze_context_sentiment review_lower feature]))
      else scan_reviews feature df rating_col rest (feature_ratings, feature_sentiments))"

text \<open>The metrics of one feature, from its count, its ratings and its sentiments.\<close>

definition feature_metrics :: "nat \<Rightarrow> rat list \<Rightarrow> sentiment list \<Rightarrow> feature_record" where
  "feature_metrics n feature_ratings feature_sentiments =
     (let avg = (if feature_ratings \<noteq> [] then np_mean feature_ratings else 0);
          pos = (if feature_sentiments \<noteq> []
                 then true_div (count_list feature_sentiments Positive) (length feature_sentiments)
                 else 0);
          neg = (if feature_sentiments \<noteq> []
                 then true_div (count_list feature_sentiments Negative) (length feature_sentiments)
                 else 0)
      in \<lparr>count = n, avg_rating = avg, positive_ratio = pos, negative_ratio = neg,
          neutral_ratio = fsub (fsub 1 pos) neg, total_mentions = length feature_ratings\<rparr>)"

text \<open>
  The outer loop over the most common features, each of which looks the review column
  up anew; the result is the dictionary in insertion order.
\<close>

fun analyze_features :: "dataframe \<Rightarrow> string \<Rightarrow> string option \<Rightarrow> (string \<times> nat) list
    \<Rightarrow> error + (string \<times> feature_record) list" where
  "analyze_features df review_col rating_col [] = Inr []"
| "analyze_features df review_col rating_col ((feature, n) # rest) =
     (case column df review_col of
        Inl e \<Rightarrow> Inl e
      | Inr series \<Rightarrow>
          (case scan_reviews feature df rating_col (review_items series) ([], []) of
             Inl e \<Rightarrow> Inl e
           | Inr (feature_ratings, feature_sentiments) \<Rightarrow>
               (case analyze_features df review_col rating_col rest of
                  Inl e \<Rightarrow> Inl e
                | Inr feature_analysis \<Rightarrow>
                    Inr ((feature, feature_metrics n feature_ratings feature_sentiments)
                           # feature_analysis))))"

definition analyze_feature_sentiment :: "dataframe \<Rightarrow> string \<Rightarrow> string option \<Rightarrow> (string \<times> nat) list
    \<Rightarrow> error + (string \<times> feature_record) list" where
  "analyze_feature_sentiment df review_col rating_col features =
     analyze_features df review_col rating_col (most_common 20 features)"

section \<open>The summary report\<close>

text \<open>
  The report holds a character beyond the first 256 code points, the bullet \<open>U+2022\<close>, so
  its text is modelled as the list of the code points of its characters.
\<close>

type_synonym unicode = "nat list"

definition code_points :: "string \<Rightarrow> unicode" where
  "code_points s = map of_char s"

text \<open>Formatting: \<open>str(n)\<close> of a natural number, \<open>format(x, '.df')\<close> and \<open>format(x, '.1%')\<close>.\<close>

fun show_nat :: "nat \<Rightarrow> string" where
  "show_nat n =
     (if n < 10 then [char_of (48 + n)] else show_nat (n div 10) @ [char_of (48 + n mod 10)])"

definition format_fixed :: "nat \<Rightarrow> rat \<Rightarrow> string" where
  "format_fixed d x =
     (let m = nat (rne (\<bar>x\<bar> * 10 ^ d));
          frac = show_nat (m mod 10 ^ d)
      in (if x < 0 then ''-'' else []) @ show_nat (m div 10 ^ d)
           @ (if d = 0 then [] else ''.'' @ replicate (d - length frac) CHR ''0'' @ frac))"

definition format_percent :: "rat \<Rightarrow> string" where
  "format_percent x = format_fixed 1 (fmul x 100) @ ''%''"

definition newline :: unicode where
  "newline = [10]"

definition bullet :: unicode where
  "bullet = [8226]"

text \<open>\<open>sep.join(xs)\<close>\<close>

fun py_join :: "'a list \<Rightarrow> 'a list list \<Rightarrow> 'a list" where
  "py_join sep [] = []"
| "py_join sep [x] = x"
| "py_join sep (x # y # ys) = x @ sep @ py_join sep (y # ys)"

type_synonym feature_analysis = "(string \<times> feature_record) list"

definition by_frequency :: "feature_analysis \<Rightarrow> feature_analysis" where
  "by_frequency feature_analysis = sorted_desc (\<lambda>(feature, data). int (count data)) feature_analysis"

definition by_rating :: "feature_analysis \<Rightarrow> feature_analysis" where
  "by_rating feature_analysis = sorted_desc (\<lambda>(feature, data). avg_rating data) feature_analysis"

definition by_positive_sentiment :: "feature_analysis \<Rightarrow> feature_analysis" where
  "by_positive_sentiment feature_analysis =
     sorted_desc (\<lambda>(feature, data). positive_ratio data) feature_analysis"

text \<open>\<open>xs[-n:]\<close> for a positive \<open>n\<close>\<close>

definition last_n :: "nat \<Rightarrow> 'a list \<Rightarrow> 'a list" where
  "last_n n xs = drop (length xs - n) xs"

definition frequency_lines :: "feature_analysis \<Rightarrow> unicode list" where
  "frequency_lines feature_analysis =
     map (\<lambda>(i, feature, data). code_points
            (show_nat (i + 1) @ ''. '' @ feature @ '': '' @ show_nat (count data) @ '' mentions''))
       (enumerate 0 (take 10 (by_frequency feature_analysis)))"

definition rating_lines :: "feature_analysis \<Rightarrow> unicode list" where
  "rating_lines feature_analysis =
     map (\<lambda>(i, feature, data). code_points
            (show_nat (i + 1) @ ''. '' @ feature @ '': '' @ format_fixed 2 (avg_rating data)
              @ ''/5.0 (from '' @ show_nat (total_mentions data) @ '' ratings)''))
       (filter (\<lambda>(i, feature, data). avg_rating data > 0)
          (enumerate 0 (take 10 (by_rating feature_analysis))))"

definition positive_lines :: "feature_analysis \<Rightarrow> unicode list" where
  "positive_lines feature_analysis =
     map (\<lambda>(i, feature, data). code_points
            (show_nat (i + 1) @ ''. '' @ feature @ '': '' @ format_percent (positive_ratio data)
              @ '' positive sentiment''))
       (enumerate 0 (take 10 (by_positive_sentiment feature_analysis)))"

text \<open>
  The entries of the last section. In the source the comprehension spans lines 289 to 291,
  of which line 290 is a damaged repetition of the other two; the entries are taken from
  \<open>by_rating[-5:]\<close> under the condition the last line states.
\<close>

definition improvement_line :: "string \<times> feature_record \<Rightarrow> unicode" where
  "improvement_line = (\<lambda>(feature, data).
     bullet @ code_points ('' '' @ feature @ '': '' @ format_fixed 2 (avg_rating data)
       @ ''/5.0 rating, '' @ format_percent (negative_ratio data) @ '' negative sentiment''))"

definition improvement_entries :: "feature_analysis \<Rightarrow> feature_analysis" where
  "improvement_entries feature_analysis =
     filter (\<lambda>(feature, data). avg_rating data > 0 \<and> negative_ratio data > fl (3 / 10))
       (last_n 5 (by_rating feature_analysis))"

text \<open>The text before the time stamp, and the lines after it.\<close>

definition report_head :: unicode where
  "report_head = py_join newline (map code_points
     [[],
      ''PRODUCT FEATURE ANALYSIS SUMMARY REPORT'',
      ''======================================'',
      ''Generated: ''])"

definition report_rest :: "feature_analysis \<Rightarrow> nat \<Rightarrow> unicode list" where
  "report_rest feature_analysis total_reviews =
     [[],
      code_points ''OVERVIEW'',
      code_points ''--------'',
      bullet @ code_points ('' Total Reviews Analyzed: '' @ show_nat total_reviews),
      bullet @ code_points ('' Unique Features Identified: '' @ show_nat (length feature_analysis)),
      bullet @ code_points ('' Total Feature Mentions: ''
        @ show_nat (sum_list (map (\<lambda>(feature, data). count data) feature_analysis))),
      [],
      code_points ''TOP FEATURES BY FREQUENCY'',
      code_points ''------------------------'',
      py_join newline (frequency_lines feature_analysis),
      [],
      code_points ''HIGHEST RATED FEATURES'',
      code_points ''---------------------'',
      py_join newline (rating_lines feature_analysis),
      [],
      code_points ''MOST POSITIVELY PERCEIVED FEATURES'',
      code_points ''---------------------------------'',
      py_join newline (positive_lines feature_analysis),
      [],
      code_points ''AREAS FOR IMPROVEMENT'',
      code_points ''--------------------'',
      py_join newline (map improvement_line (improvement_entries feature_analysis)),
      [],
      code_points ''RECOMMENDATIONS'',
      code_points ''--------------'',
      code_points ''1. Leverage strengths in highly-rated features for marketing'',
      code_points ''2. Address concerns in low-rated, frequently mentioned features'',
      code_points ''3. Monitor sentiment trends for key product aspects'',
      code_points ''4. Focus development on features with mixed sentiment'',
      [],
      code_points ''METHODOLOGY'',
      code_points ''-----------'',
      bullet @ code_points '' Feature extraction using pattern matching and NLP'',
      bullet @ code_points '' Sentiment analysis based on contextual word analysis'',
      bullet @ code_points '' Rating correlation with feature mentions'',
      bullet @ code_points '' Statistical aggregation across all reviews'',
      []]"

text \<open>
  The report text, which the function writes to \<open>feature_analysis_report.txt\<close> and prints.
  \<open>now\<close> is the time of the run as \<open>strftime\<close> formats it.
\<close>

definition generate_summary_report :: "string \<Rightarrow> feature_analysis \<Rightarrow> nat \<Rightarrow> unicode" where
  "generate_summary_report now feature_analysis total_reviews =
     report_head @ code_points now @ newline
       @ py_join newline (report_rest feature_analysis total_reviews)"

section \<open>The pipeline\<close>

definition review_keywords :: "string list" where
  "review_keywords = [''review'', ''text'', ''comment'', ''feedback'']"

definition rating_keywords :: "string list" where
  "rating_keywords = [''rating'', ''score'', ''stars'']"

definition matching_columns :: "string list \<Rightarrow> dataframe \<Rightarrow> string list" where
  "matching_columns keywords df =
     filter (\<lambda>col. list_ex (\<lambda>keyword. str_in keyword (py_lower col)) keywords) (map fst df)"

text \<open>
  What a run prints and the files it writes, in their order, and the exception that ends
  it, if any. The messages are modelled by their kind and the values they show.
\<close>

datatype message =
    Starting | Loaded nat | Load_error | No_review_column | Using_column string
  | Extracting | Extracted nat | Analyzing | Visualizing | Generating | Report_saved
  | Separator | Report_text unicode | Complete

datatype artefact = Image | Text_file unicode

record run =
  console :: "message list"
  files :: "(string \<times> artefact) list"
  raised :: "error option"

text \<open>
  The whole run on the table that \<open>pd.read_csv\<close> returned, or on none where it raised.
  What \<open>create_feature_visualizations\<close> does beyond its first message is the work of the
  plotting libraries; it is the parameter \<open>plots\<close>, which gives the files saved and the
  exception raised, if any. Writing the report file is taken to succeed.
\<close>

definition analyze_product_features ::
    "string \<Rightarrow> (feature_analysis \<Rightarrow> (string \<times> artefact) list \<times> error option)
      \<Rightarrow> dataframe option \<Rightarrow> run" where
  "analyze_product_features now plots loaded =
     (case loaded of
        None \<Rightarrow> \<lparr>console = [Starting, Load_error], files = [], raised = None\<rparr>
      | Some df \<Rightarrow>
          (let review_columns = matching_columns review_keywords df in
           if review_columns = []
           then \<lparr>console = [Starting, Loaded (len_df df), No_review_column], files = [],
                  raised = None\<rparr>
           else
             let review_col = hd review_columns;
                 rating_columns = matching_columns rating_keywords df;
                 rating_col = (if rating_columns \<noteq> [] then Some (hd rating_columns) else None);
                 selected = [Starting, Loaded (len_df df), Using_column review_col]
             in case column df review_col of
                  Inl e \<Rightarrow> \<lparr>console = selected, files = [], raised = Some e\<rparr>
                | Inr series \<Rightarrow>
                    (let features = extract_features_from_reviews (map snd (review_items series));
                         extracted = selected @ [Extracting, Extracted (length features), Analyzing]
                     in case analyze_feature_sentiment df review_col rating_col features of
                          Inl e \<Rightarrow> \<lparr>console = extracted, files = [], raised = Some e\<rparr>
                        | Inr feature_analysis \<Rightarrow>
                            (case plots feature_analysis of
                               (saved, Some e) \<Rightarrow>
                                 \<lparr>console = extracted @ [Visualizing], files = saved,
                                   raised = Some e\<rparr>
                             | (saved, None) \<Rightarrow>
                                 (let report =
                                        generate_summary_report now feature_analysis (len_df df)
                                  in \<lparr>console = extracted
                                         @ [Visualizing, Generating, Report_saved, Separator,
                                            Report_text report, Complete],
                                       files = saved
                                         @ [(''feature_analysis_report.txt'', Text_file report)],
                                       raised = None\<rparr>)))))"

text \<open>The sample table at the end of the script, its two columns first.\<close>

definition sample_reviews :: "cell list" where
  "sample_reviews =
     [Cell ''Great camera quality and excellent battery life. Love the design!'' None,
      Cell ''Poor audio quality but good screen display. Price is reasonable.'' None,
      Cell ''Amazing performance and fast charging. Camera could be better.'' None,
      Cell ''Terrible battery life and slow performance. Good build quality though.'' None,
      Cell ''Perfect size and weight. Great value for money. Audio is fantastic!'' None]"

definition sample_ratings :: "cell list" where
  "sample_ratings =
     [Cell ''5'' (Some 5), Cell ''3'' (Some 3), Cell ''4'' (Some 4), Cell ''2'' (Some 2),
      Cell ''5'' (Some 5)]"

definition sample_df :: dataframe where
  "sample_df = [(''review'', sample_reviews), (''rating'', sample_ratings)]"

section \<open>Example inputs\<close>

text \<open>The number of positions at which \<open>sub\<close> occurs in \<open>s\<close>.\<close>

definition occurrences :: "string \<Rightarrow> string \<Rightarrow> nat" where
  "occurrences sub s = length (filter (\<lambda>i. prefix sub (drop i s)) [0..<Suc (length s)])"

text \<open>
  The count of a word list in a window when every occurrence of a word counts, as opposed
  to \<^const>\<open>word_hits\<close>.
\<close>

definition occurrence_count :: "string list \<Rightarrow> string \<Rightarrow> nat" where
  "occurrence_count ws s = sum_list (map (\<lambda>word. occurrences word s) ws)"

text \<open>A table whose only review gets the label \<open>battery\<close> without containing that word.\<close>

definition power_series :: "cell list" where
  "power_series = [Cell ''Power is low'' None]"

definition power_df :: dataframe where
  "power_df = [(''review'', power_series)]"

text \<open>A table whose only review mentions the camera twice.\<close>

definition echo_series :: "cell list" where
  "echo_series = [Cell ''Camera, camera'' None]"

definition echo_df :: dataframe where
  "echo_df = [(''review'', echo_series)]"

text \<open>A table without a text column, and one with two of them.\<close>

definition plain_df :: dataframe where
  "plain_df = [(''id'', [Cell ''1'' (Some 1)]), (''title'', [Cell ''Phone'' None])]"

definition two_text_df :: dataframe where
  "two_text_df = [(''id'', []), (''Review_Text'', []), (''comments'', [])]"





section \<open>Lines of a text\<close>



section \<open>Facts about the string operations\<close>

lemma str_in_sublist: "str_in sub text \<longleftrightarrow> sublist sub text"
  by (induction "text") (simp_all add: sublist_Cons_right)

lemma find_from_missing: "find_from sub text i = - 1 \<longleftrightarrow> \<not> sublist sub text"
proof (induction "text" arbitrary: i)
  case Nil
  show ?case by simp
next
  case (Cons c cs)
  show ?case
  proof (cases "prefix sub (c # cs)")
    case True
    then show ?thesis by simp
  next
    case False
    then show ?thesis using Cons.IH [of "Suc i"] by (simp add: sublist_Cons_right)
  qed
qed

lemma find_from_first:
  assumes "sublist sub text"
  shows "\<exists>k. find_from sub text i = int (i + k) \<and> k \<le> length text \<and> prefix sub (drop k text)
           \<and> (\<forall>j<k. \<not> prefix sub (drop j text))"
  using assms
proof (induction "text" arbitrary: i)
  case Nil
  then show ?case by simp
next
  case (Cons c cs)
  show ?case
  proof (cases "prefix sub (c # cs)")
    case True
    then have "find_from sub (c # cs) i = int (i + 0) \<and> 0 \<le> length (c # cs)
        \<and> prefix sub (drop 0 (c # cs)) \<and> (\<forall>j<0. \<not> prefix sub (drop j (c # cs)))"
      by simp
    then show ?thesis by blast
  next
    case False
    with Cons.prems have "sublist sub cs" by (simp add: sublist_Cons_right)
    from Cons.IH [OF this, of "Suc i"] obtain k where k:
      "find_from sub cs (Suc i) = int (Suc i + k)" "k \<le> length cs" "prefix sub (drop k cs)"
      "\<forall>j<k. \<not> prefix sub (drop j cs)" by blast
    have "\<forall>j<Suc k. \<not> prefix sub (drop j (c # cs))"
    proof (intro allI impI)
      fix j assume "j < Suc k"
      then show "\<not> prefix sub (drop j (c # cs))"
        using False k(4) by (cases j) simp_all
    qed
    with False k have "find_from sub (c # cs) i = int (i + Suc k) \<and> Suc k \<le> length (c # cs)
        \<and> prefix sub (drop (Suc k) (c # cs)) \<and> (\<forall>j<Suc k. \<not> prefix sub (drop j (c # cs)))"
      by simp
    then show ?thesis by blast
  qed
qed

lemma py_find_first:
  assumes "sublist sub text"
  shows "\<exists>k. py_find text sub = int k \<and> k \<le> length text \<and> prefix sub (drop k text)
           \<and> (\<forall>j<k. \<not> prefix sub (drop j text))"
  using find_from_first [OF assms, of 0] by (simp add: py_find_def)

lemma py_find_missing: "py_find text sub = - 1 \<longleftrightarrow> \<not> sublist sub text"
  by (simp add: py_find_def find_from_missing)

lemma word_hits_length: "word_hits ws context = length (filter (\<lambda>w. sublist w context) ws)"
  by (simp add: word_hits_def str_in_sublist sum_list_map_filter' sum_list_triv flip: length_filter_conv_card)

section \<open>The sentiment window and its word counts\<close>

lemma slice_as_positions:
  assumes "hi \<le> length xs"
  shows "take (hi - lo) (drop lo xs) = map (\<lambda>j. xs ! j) [lo..<hi]"
proof (rule nth_equalityI)
  show "length (take (hi - lo) (drop lo xs)) = length (map (\<lambda>j. xs ! j) [lo..<hi])"
    using assms by simp
next
  fix k assume "k < length (take (hi - lo) (drop lo xs))"
  then have "k < hi - lo" by simp
  then show "take (hi - lo) (drop lo xs) ! k = map (\<lambda>j. xs ! j) [lo..<hi] ! k"
    using assms by simp
qed

lemma context_window_positions:
  "context_window review feature (int i) =
     map (\<lambda>j. review ! j) [i - 50 ..< min (length review) (i + length feature + 50)]"
proof -
  have lo: "nat (max 0 (int i - 50)) = i - 50" by simp
  have hi: "nat (min (int (length review)) (int i + int (length feature) + 50) - max 0 (int i - 50))
      = min (length review) (i + length feature + 50) - (i - 50)"
    by (simp add: min_def max_def) linarith
  have "context_window review feature (int i) =
      take (min (length review) (i + length feature + 50) - (i - 50)) (drop (i - 50) review)"
    unfolding context_window_def py_slice_def Let_def lo hi ..
  then show ?thesis by (simp add: slice_as_positions)
qed

text \<open>
  C3, as the code has it. When the lowercased review contains the feature, the classified
  window consists of the characters from 50 before the first occurrence of the feature to
  50 after its end, cut off at the bounds of the text. The positive count is the number of
  entries of the positive word list that occur in the window as a substring, each entry
  counting once however often it occurs, and the negative count likewise for the negative
  list, in which \<open>worst\<close> is entered twice. The result is positive exactly when the
  positive count exceeds the negative count, negative exactly when the negative count
  exceeds the positive count, and neutral exactly when the two are equal.
\<close>

theorem analyze_context_sentiment_window:
  assumes "sublist feature review"
  shows "\<exists>i. i \<le> length review \<and> prefix feature (drop i review)
           \<and> (\<forall>j<i. \<not> prefix feature (drop j review))
           \<and> (let w = map (\<lambda>j. review ! j)
                          [i - 50 ..< min (length review) (i + length feature + 50)];
                  p = length (filter (\<lambda>e. sublist e w)
                        [''good'', ''great'', ''excellent'', ''amazing'', ''love'', ''perfect'',
                         ''awesome'', ''fantastic'', ''best'']);
                  n = length (filter (\<lambda>e. sublist e w)
                        [''bad'', ''terrible'', ''awful'', ''hate'', ''worst'', ''horrible'',
                         ''disappointing'', ''poor'', ''worst''])
              in (analyze_context_sentiment review feature = Positive \<longleftrightarrow> p > n)
               \<and> (analyze_context_sentiment review feature = Negative \<longleftrightarrow> n > p)
               \<and> (analyze_context_sentiment review feature = Neutral \<longleftrightarrow> p = n))"
proof -
  from py_find_first [OF assms] obtain i where i:
    "py_find review feature = int i" "i \<le> length review" "prefix feature (drop i review)"
    "\<forall>j<i. \<not> prefix feature (drop j review)" by blast
  define w where "w = map (\<lambda>j. review ! j) [i - 50 ..< min (length review) (i + length feature + 50)]"
  define p where "p = length (filter (\<lambda>e. sublist e w)
                        [''good'', ''great'', ''excellent'', ''amazing'', ''love'', ''perfect'',
                         ''awesome'', ''fantastic'', ''best''])"
  define n where "n = length (filter (\<lambda>e. sublist e w)
                        [''bad'', ''terrible'', ''awful'', ''hate'', ''worst'', ''horrible'',
                         ''disappointing'', ''poor'', ''worst''])"
  have p: "positive_count w = p"
    unfolding positive_count_def word_hits_length p_def positive_words_def ..
  have n: "negative_count w = n"
    unfolding negative_count_def word_hits_length n_def negative_words_def ..
  have res: "analyze_context_sentiment review feature =
      (if p > n then Positive else if n > p then Negative else Neutral)"
    by (simp add: analyze_context_sentiment_def i(1) context_window_positions Let_def
        flip: w_def p n)
  have "(analyze_context_sentiment review feature = Positive \<longleftrightarrow> p > n)
      \<and> (analyze_context_sentiment review feature = Negative \<longleftrightarrow> n > p)
      \<and> (analyze_context_sentiment review feature = Neutral \<longleftrightarrow> p = n)"
    unfolding res by auto
  with i show ?thesis unfolding w_def p_def n_def Let_def by blast
qed

theorem analyze_context_sentiment_window_witness:
  "sublist ''camera'' ''great camera''
   \<and> (\<exists>i. i \<le> length ''great camera'' \<and> prefix ''camera'' (drop i ''great camera'')
          \<and> (analyze_context_sentiment ''great camera'' ''camera'' = Positive
                \<longleftrightarrow> length (filter (\<lambda>e. sublist e (map (\<lambda>j. ''great camera'' ! j)
                        [i - 50 ..< min (length ''great camera'') (i + length ''camera'' + 50)]))
                        [''good'', ''great'', ''excellent'', ''amazing'', ''love'', ''perfect'',
                         ''awesome'', ''fantastic'', ''best''])
                    > length (filter (\<lambda>e. sublist e (map (\<lambda>j. ''great camera'' ! j)
                        [i - 50 ..< min (length ''great camera'') (i + length ''camera'' + 50)]))
                        [''bad'', ''terrible'', ''awful'', ''hate'', ''worst'', ''horrible'',
                         ''disappointing'', ''poor'', ''worst''])))"
proof -
  have h: "sublist ''camera'' ''great camera''"
    by (simp add: sublist_Cons_right)
  from analyze_context_sentiment_window [OF h] h show ?thesis
    unfolding Let_def by blast
qed

text \<open>
  The counts are not numbers of occurrences: in \<open>good good camera bad\<close> the window is the
  whole text, words of the positive list occur twice in it and words of the negative list
  once, and the result is neutral, not positive.
\<close>

theorem occurrence_count_counterexample:
  "str_in ''camera'' ''good good camera bad''
   \<and> context_window ''good good camera bad'' ''camera''
         (py_find ''good good camera bad'' ''camera'') = ''good good camera bad''
   \<and> occurrence_count positive_words ''good good camera bad'' = 2
   \<and> occurrence_count negative_words ''good good camera bad'' = 1
   \<and> analyze_context_sentiment ''good good camera bad'' ''camera'' = Neutral"
  by code_simp

text \<open>
  C10. The positive and the negative count of a window are the numbers of entries of the
  respective word list, counted with multiplicity, that occur somewhere in the window as a
  substring. An entry counts once however often it occurs, an occurrence inside a longer
  word counts, and a window containing \<open>worst\<close>, which is listed twice, has a negative
  count of at least 2.
\<close>

theorem context_word_counts:
  "positive_count w = length (filter (\<lambda>e. sublist e w) positive_words)
   \<and> negative_count w = length (filter (\<lambda>e. sublist e w) negative_words)
   \<and> positive_count w = (\<Sum>k<length positive_words. if sublist (positive_words ! k) w then 1 else 0)
   \<and> negative_count w = (\<Sum>k<length negative_words. if sublist (negative_words ! k) w then 1 else 0)
   \<and> positive_count ''good good good'' = 1
   \<and> negative_count ''badge'' = 1
   \<and> (sublist ''worst'' w \<longrightarrow> 2 \<le> negative_count w)"
proof -
  have count_sum: "length (filter P xs) = (\<Sum>k<length xs. if P (xs ! k) then 1 else 0)"
    for P :: "string \<Rightarrow> bool" and xs
  proof -
    have "length (filter P xs) = sum_list (map (\<lambda>x. if P x then 1 else 0) xs)"
      by (induction xs) simp_all
    also have "\<dots> = (\<Sum>k<length xs. if P (xs ! k) then 1 else 0)"
      by (simp add: sum_list_sum_nth atLeast0LessThan)
    finally show ?thesis .
  qed
  have p: "positive_count w = length (filter (\<lambda>e. sublist e w) positive_words)"
    and n: "negative_count w = length (filter (\<lambda>e. sublist e w) negative_words)"
    by (simp_all add: positive_count_def negative_count_def word_hits_length)
  have good: "positive_count ''good good good'' = 1"
    by (simp add: positive_count_def word_hits_def positive_words_def)
  have badge: "negative_count ''badge'' = 1"
    by (simp add: negative_count_def word_hits_def negative_words_def)
  have worst: "2 \<le> negative_count w" if "sublist ''worst'' w"
    using that by (simp add: n negative_words_def)
  show ?thesis
    using p n good badge worst count_sum [of "\<lambda>e. sublist e w"] by auto
qed

theorem context_word_counts_witness:
  "sublist ''worst'' ''the worst badge'' \<and> 2 \<le> negative_count ''the worst badge''"
proof -
  have h: "sublist ''worst'' ''the worst badge''"
    by (simp add: sublist_Cons_right)
  with context_word_counts [of "''the worst badge''"] show ?thesis by blast
qed

section \<open>Records of the sentiment aggregation\<close>

lemma fl_zero: "fl 0 = 0"
  by (simp add: fl_def)

lemma fl_one: "fl 1 = 1"
  by code_simp

lemma scan_reviews_result:
  assumes "scan_reviews feature df rating_col items (rs0, ss0) = Inr (rs1, ss1)"
  shows "\<exists>rs. rs1 = rs0 @ rs
           \<and> ss1 = ss0 @ map (\<lambda>(idx, review). analyze_context_sentiment (py_lower review) feature)
                          (filter (\<lambda>(idx, review). sublist feature (py_lower review)) items)
           \<and> length rs \<le> length (filter (\<lambda>(idx, review). sublist feature (py_lower review)) items)"
  using assms
proof (induction items arbitrary: rs0 ss0)
  case Nil
  then show ?case by simp
next
  case (Cons item items)
  obtain idx review where item: "item = (idx, review)" by (cases item)
  show ?case
  proof (cases "sublist feature (py_lower review)")
    case False
    with Cons.prems have "scan_reviews feature df rating_col items (rs0, ss0) = Inr (rs1, ss1)"
      by (simp add: item str_in_sublist)
    from Cons.IH [OF this] False show ?thesis by (simp add: item)
  next
    case True
    show ?thesis
    proof (cases "rating_of df rating_col idx")
      case (Inl e)
      with Cons.prems True show ?thesis by (simp add: item str_in_sublist)
    next
      case (Inr r)
      let ?new = "case r of None \<Rightarrow> [] | Some rating \<Rightarrow> [rating]"
      let ?s = "analyze_context_sentiment (py_lower review) feature"
      have "(case r of None \<Rightarrow> rs0 | Some rating \<Rightarrow> rs0 @ [rating]) = rs0 @ ?new"
        by (cases r) simp_all
      with Cons.prems True Inr
      have "scan_reviews feature df rating_col items (rs0 @ ?new, ss0 @ [?s]) = Inr (rs1, ss1)"
        by (simp add: item str_in_sublist)
      from Cons.IH [OF this] obtain rs where rs: "rs1 = (rs0 @ ?new) @ rs"
        "ss1 = (ss0 @ [?s]) @ map (\<lambda>(idx, review). analyze_context_sentiment (py_lower review) feature)
                          (filter (\<lambda>(idx, review). sublist feature (py_lower review)) items)"
        "length rs \<le> length (filter (\<lambda>(idx, review). sublist feature (py_lower review)) items)"
        by blast
      have "length ?new \<le> 1" by (cases r) simp_all
      with rs True have "rs1 = rs0 @ (?new @ rs)
           \<and> ss1 = ss0 @ map (\<lambda>(idx, review). analyze_context_sentiment (py_lower review) feature)
                          (filter (\<lambda>(idx, review). sublist feature (py_lower review)) (item # items))
           \<and> length (?new @ rs)
               \<le> length (filter (\<lambda>(idx, review). sublist feature (py_lower review)) (item # items))"
        by (simp add: item)
      then show ?thesis by (intro exI [of _ "?new @ rs"])
    qed
  qed
qed

lemma scan_reviews_Inr:
  assumes "scan_reviews feature df rating_col items ([], []) = Inr (rs, ss)"
  shows "ss = map (\<lambda>(idx, review). analyze_context_sentiment (py_lower review) feature)
                (filter (\<lambda>(idx, review). sublist feature (py_lower review)) items)"
    and "length rs \<le> length ss"
  using scan_reviews_result [OF assms] by auto

lemma analyze_features_entry:
  assumes "analyze_features df review_col rating_col tops = Inr fa" "(feature, r) \<in> set fa"
  shows "\<exists>n rs ss series. (feature, n) \<in> set tops
           \<and> column df review_col = Inr series
           \<and> scan_reviews feature df rating_col (review_items series) ([], []) = Inr (rs, ss)
           \<and> r = feature_metrics n rs ss"
  using assms
proof (induction tops arbitrary: fa)
  case Nil
  then show ?case by simp
next
  case (Cons top tops)
  obtain f n where top: "top = (f, n)" by (cases top)
  from Cons.prems(1) obtain series rs ss fa' where
    series: "column df review_col = Inr series"
    and scan: "scan_reviews f df rating_col (review_items series) ([], []) = Inr (rs, ss)"
    and rest: "analyze_features df review_col rating_col tops = Inr fa'"
    and fa: "fa = (f, feature_metrics n rs ss) # fa'"
    by (auto simp: top split: sum.splits)
  from Cons.prems(2) fa consider "(feature, r) = (f, feature_metrics n rs ss)" | "(feature, r) \<in> set fa'"
    by auto
  then show ?case
  proof cases
    case 1
    with series scan top show ?thesis by auto
  next
    case 2
    from Cons.IH [OF rest 2] show ?thesis by auto
  qed
qed

lemma feature_metrics_empty:
  "feature_metrics n [] [] =
     \<lparr>count = n, avg_rating = 0, positive_ratio = 0, negative_ratio = 0, neutral_ratio = 1,
      total_mentions = 0\<rparr>"
  by (simp add: feature_metrics_def fsub_def fl_one)

text \<open>
  C1, as the code has it. A feature of the analysis that no review contains as a substring
  (it was counted through another word of its pattern) has no classified mention and no
  rating: its positive and negative ratios are 0, its average rating is 0, and its neutral
  ratio, computed as \<open>1 - positive_ratio - negative_ratio\<close>, is 1.
\<close>

theorem zero_mentions_record:
  assumes "analyze_feature_sentiment df review_col rating_col features = Inr feature_analysis"
    and "(feature, data) \<in> set feature_analysis"
    and "column df review_col = Inr series"
    and "\<forall>(idx, review) \<in> set (review_items series). \<not> sublist feature (py_lower review)"
  shows "positive_ratio data = 0 \<and> negative_ratio data = 0 \<and> neutral_ratio data = 1
           \<and> avg_rating data = 0 \<and> total_mentions data = 0"
proof -
  from analyze_features_entry [OF assms(1) [unfolded analyze_feature_sentiment_def] assms(2)] assms(3)
  obtain n rs ss where
    scan: "scan_reviews feature df rating_col (review_items series) ([], []) = Inr (rs, ss)"
    and data: "data = feature_metrics n rs ss" by auto
  have "filter (\<lambda>(idx, review). sublist feature (py_lower review)) (review_items series) = []"
    using assms(4) by (auto simp: filter_empty_conv)
  with scan_reviews_Inr [OF scan] have "ss = []" "rs = []" by simp_all
  then show ?thesis by (simp add: data feature_metrics_empty)
qed

lemma power_df_analysis:
  "analyze_feature_sentiment power_df ''review'' None
       (extract_features_from_reviews (map snd (review_items power_series)))
     = Inr [(''battery'', \<lparr>count = 1, avg_rating = 0, positive_ratio = 0, negative_ratio = 0,
                            neutral_ratio = 1, total_mentions = 0\<rparr>)]"
  by code_simp

lemma power_df_column: "column power_df ''review'' = Inr power_series"
  by (simp add: column_def power_df_def)

lemma power_df_items: "review_items power_series = [(0, ''Power is low'')]"
  by code_simp

lemma power_no_battery: "\<not> sublist ''battery'' (py_lower ''Power is low'')"
  unfolding str_in_sublist [symmetric] by code_simp

theorem zero_mentions_record_witness:
  "analyze_feature_sentiment power_df ''review'' None
       (extract_features_from_reviews (map snd (review_items power_series)))
     = Inr [(''battery'', \<lparr>count = 1, avg_rating = 0, positive_ratio = 0, negative_ratio = 0,
                            neutral_ratio = 1, total_mentions = 0\<rparr>)]
   \<and> column power_df ''review'' = Inr power_series
   \<and> \<not> sublist ''battery'' (py_lower ''Power is low'')
   \<and> neutral_ratio \<lparr>count = 1, avg_rating = 0, positive_ratio = 0, negative_ratio = 0,
                            neutral_ratio = 1, total_mentions = 0\<rparr> = 1"
proof -
  have "\<forall>(idx, review) \<in> set (review_items power_series). \<not> sublist ''battery'' (py_lower review)"
    by (simp add: power_df_items power_no_battery)
  from zero_mentions_record [OF power_df_analysis _ power_df_column this, of "\<lparr>count = 1, avg_rating = 0, positive_ratio = 0, negative_ratio = 0,
                            neutral_ratio = 1, total_mentions = 0\<rparr>"]
  show ?thesis using power_df_analysis power_df_column power_no_battery by simp
qed

text \<open>
  The neutral ratio of such a feature is not 0: for the single review \<open>Power is low\<close>
  the feature \<open>battery\<close> is counted once, no review contains \<open>battery\<close>, and the
  record has the neutral ratio 1.
\<close>

theorem zero_mentions_neutral_ratio_counterexample:
  "analyze_feature_sentiment power_df ''review'' None
       (extract_features_from_reviews (map snd (review_items power_series)))
     = Inr [(''battery'', \<lparr>count = 1, avg_rating = 0, positive_ratio = 0, negative_ratio = 0,
                            neutral_ratio = 1, total_mentions = 0\<rparr>)]
   \<and> column power_df ''review'' = Inr power_series
   \<and> \<not> str_in ''battery'' (py_lower ''Power is low'')
   \<and> neutral_ratio \<lparr>count = 1, avg_rating = 0, positive_ratio = 0, negative_ratio = 0,
                            neutral_ratio = 1, total_mentions = 0\<rparr> \<noteq> 0"
  using power_df_analysis power_df_column power_no_battery by (simp add: str_in_sublist)

text \<open>
  C6, as the code has it. Every record of the analysis is computed from one sentiment
  classification per review that contains the feature, that of the window around the first
  occurrence, however often the feature occurs in the review.
\<close>

theorem one_classification_per_review:
  assumes "analyze_feature_sentiment df review_col rating_col features = Inr feature_analysis"
    and "(feature, data) \<in> set feature_analysis"
  shows "\<exists>n feature_ratings feature_sentiments series.
           (feature, n) \<in> set (most_common 20 features)
           \<and> column df review_col = Inr series
           \<and> scan_reviews feature df rating_col (review_items series) ([], [])
                = Inr (feature_ratings, feature_sentiments)
           \<and> data = feature_metrics n feature_ratings feature_sentiments
           \<and> feature_sentiments =
               map (\<lambda>(idx, review). analyze_context_sentiment (py_lower review) feature)
                 (filter (\<lambda>(idx, review). sublist feature (py_lower review))
                    (review_items series))
           \<and> length feature_sentiments =
               length (filter (\<lambda>(idx, review). sublist feature (py_lower review))
                    (review_items series))"
proof -
  from analyze_features_entry [OF assms(1) [unfolded analyze_feature_sentiment_def] assms(2)]
  obtain n rs ss series where *: "(feature, n) \<in> set (most_common 20 features)"
    "column df review_col = Inr series"
    "scan_reviews feature df rating_col (review_items series) ([], []) = Inr (rs, ss)"
    "data = feature_metrics n rs ss" by blast
  from scan_reviews_Inr(1) [OF *(3)] have "ss =
               map (\<lambda>(idx, review). analyze_context_sentiment (py_lower review) feature)
                 (filter (\<lambda>(idx, review). sublist feature (py_lower review))
                    (review_items series))" .
  moreover from this have "length ss = length (filter (\<lambda>(idx, review). sublist feature (py_lower review))
                    (review_items series))" by simp
  ultimately show ?thesis using * by blast
qed

theorem one_classification_per_review_witness:
  "analyze_feature_sentiment echo_df ''review'' None
       (extract_features_from_reviews (map snd (review_items echo_series)))
     = Inr [(''camera'', feature_metrics 1 [] [Neutral])]
   \<and> (\<exists>n feature_ratings feature_sentiments series.
         column echo_df ''review'' = Inr series
         \<and> scan_reviews ''camera'' echo_df None (review_items series) ([], [])
            = Inr (feature_ratings, feature_sentiments)
         \<and> feature_metrics 1 [] [Neutral] = feature_metrics n feature_ratings feature_sentiments
         \<and> length feature_sentiments =
               length (filter (\<lambda>(idx, review). sublist ''camera'' (py_lower review))
                    (review_items series)))"
proof -
  have a: "analyze_feature_sentiment echo_df ''review'' None
       (extract_features_from_reviews (map snd (review_items echo_series)))
     = Inr [(''camera'', feature_metrics 1 [] [Neutral])]"
    by code_simp
  from one_classification_per_review [OF a, of "''camera''" "feature_metrics 1 [] [Neutral]"] a
  show ?thesis by auto
qed

text \<open>
  A review in which the feature occurs twice contributes one classification, not two.
\<close>

theorem repeated_mention_counterexample:
  "occurrences ''camera'' (py_lower ''Camera, camera'') = 2
   \<and> column echo_df ''review'' = Inr echo_series
   \<and> most_common 20 (extract_features_from_reviews (map snd (review_items echo_series)))
       = [(''camera'', 1)]
   \<and> scan_reviews ''camera'' echo_df None (review_items echo_series) ([], [])
       = Inr ([], [Neutral])"
  by code_simp

section \<open>Labels of the fixed categories\<close>

lemma match_here_literal: "CHR ''.'' \<notin> set w \<Longrightarrow> match_here w (w @ post)"
  by (induction w) simp_all

lemma pattern_words_shape:
  "list_all (\<lambda>(label, ws). list_all (\<lambda>w. w \<noteq> [] \<and> is_word_char (hd w) \<and> is_word_char (last w)) ws)
     feature_patterns"
  by code_simp

lemma pattern_word_ends:
  assumes "(label, ws) \<in> set feature_patterns" "w \<in> set ws"
  shows "w \<noteq> []" "is_word_char (hd w)" "is_word_char (last w)"
  using pattern_words_shape assms by (auto simp: list_all_iff)

lemma word_boundary_before:
  assumes "w \<noteq> []" "is_word_char (hd w)" "pre = [] \<or> \<not> is_word_char (last pre)"
  shows "word_boundary (pre @ w @ post) (length pre)"
proof -
  have r: "(pre @ w @ post) ! length pre = hd w"
    using assms(1) by (simp add: nth_append hd_conv_nth)
  have l: "\<not> (0 < length pre \<and> is_word_char ((pre @ w @ post) ! (length pre - 1)))"
    using assms(3) by (auto simp: nth_append last_conv_nth)
  show ?thesis unfolding word_boundary_def using l r assms(1,2) by simp
qed

lemma word_boundary_after:
  assumes "w \<noteq> []" "is_word_char (last w)" "post = [] \<or> \<not> is_word_char (hd post)"
  shows "word_boundary (pre @ w @ post) (length pre + length w)"
proof -
  have "length pre + length w - 1 = length pre + (length w - 1)"
    using assms(1) by (cases w) simp_all
  then have "(pre @ w @ post) ! (length pre + length w - 1) = (w @ post) ! (length w - 1)"
    by (simp only: nth_append_length_plus)
  also have "\<dots> = last w"
    using assms(1) by (simp add: nth_append last_conv_nth)
  finally have l: "(pre @ w @ post) ! (length pre + length w - 1) = last w" .
  have r: "\<not> (length pre + length w < length (pre @ w @ post)
       \<and> is_word_char ((pre @ w @ post) ! (length pre + length w)))"
    using assms(3) by (auto simp: nth_append hd_conv_nth)
  have "0 < length pre + length w" using assms(1) by simp
  then show ?thesis unfolding word_boundary_def using l r assms(2) by simp
qed

lemma re_search_words_whole_word:
  assumes "w \<in> set ws" "CHR ''.'' \<notin> set w" "w \<noteq> []" "is_word_char (hd w)" "is_word_char (last w)"
    and "pre = [] \<or> \<not> is_word_char (last pre)" "post = [] \<or> \<not> is_word_char (hd post)"
  shows "re_search_words ws (pre @ w @ post)"
proof -
  let ?s = "pre @ w @ post"
  have "length pre \<in> set [0..<Suc (length ?s)]" by simp
  moreover have "word_boundary ?s (length pre)"
    using word_boundary_before assms by simp
  moreover have "match_here w (drop (length pre) ?s)"
    using match_here_literal assms(2) by simp
  moreover have "word_boundary ?s (length pre + length w)"
    using word_boundary_after assms by simp
  ultimately show ?thesis
    unfolding re_search_words_def list_ex_iff using assms(1) by blast
qed

lemma bigram_step_keeps: "set acc \<subseteq> set (bigram_step acc ww)"
  by (auto simp: bigram_step_def Let_def)

lemma foldl_bigram_step_keeps: "set acc \<subseteq> set (foldl bigram_step acc pairs)"
proof (induction pairs arbitrary: acc)
  case Nil
  show ?case by simp
next
  case (Cons p pairs)
  have "set acc \<subseteq> set (bigram_step acc p)" by (rule bigram_step_keeps)
  also have "\<dots> \<subseteq> set (foldl bigram_step (bigram_step acc p) pairs)" by (rule Cons.IH)
  finally show ?case by simp
qed

lemma pattern_features_subset: "set (pattern_features (py_lower review)) \<subseteq> set (review_features review)"
  unfolding review_features_def Let_def by (rule foldl_bigram_step_keeps)

lemma counter_add_keys: "fst ` set (counter_add x c) = insert x (fst ` set c)"
  by (induction x c rule: counter_add.induct) auto

lemma counter_keys_from: "fst ` set (foldl (\<lambda>c x. counter_add x c) acc xs) = fst ` set acc \<union> set xs"
  by (induction xs arbitrary: acc) (auto simp: counter_add_keys)

lemma counter_keys: "fst ` set (counter xs) = set xs"
  by (simp add: counter_def counter_keys_from)

text \<open>
  C4, as the code has it. A review gets the label of a category when its lowercased text
  contains one of the literal words of the category's pattern as a whole word, that is,
  neither preceded nor followed by a letter, a digit or an underscore; the label is then
  among the counted features. The name of a category is itself a word of its pattern for
  eleven of the twelve categories; \<open>usability\<close> is not.
\<close>

theorem whole_word_gets_label:
  assumes "(label, ws) \<in> set feature_patterns" and "w \<in> set ws" and "CHR ''.'' \<notin> set w"
    and "py_lower review = pre @ w @ post"
    and "pre = [] \<or> \<not> is_word_char (last pre)" and "post = [] \<or> \<not> is_word_char (hd post)"
  shows "label \<in> set (review_features review)
         \<and> (review \<in> set reviews \<longrightarrow> label \<in> fst ` set (extract_features_from_reviews reviews))
         \<and> map fst (filter (\<lambda>(name, pattern). name \<in> set pattern) feature_patterns) =
             [''battery'', ''camera'', ''display'', ''audio'', ''design'', ''performance'', ''price'',
              ''size'', ''quality'', ''delivery'', ''service'']"
proof -
  have "re_search_words ws (py_lower review)"
    unfolding assms(4)
    using re_search_words_whole_word [OF assms(2,3) pattern_word_ends [OF assms(1,2)] assms(5,6)] .
  with assms(1) have "label \<in> set (pattern_features (py_lower review))"
    by (force simp: pattern_features_def)
  with pattern_features_subset have a: "label \<in> set (review_features review)" by blast
  then have b: "label \<in> fst ` set (extract_features_from_reviews reviews)" if "review \<in> set reviews"
    using that by (auto simp: extract_features_from_reviews_def counter_keys)
  have c: "map fst (filter (\<lambda>(name, pattern). name \<in> set pattern) feature_patterns) =
             [''battery'', ''camera'', ''display'', ''audio'', ''design'', ''performance'', ''price'',
              ''size'', ''quality'', ''delivery'', ''service'']"
    by (simp add: feature_patterns_def)
  from a b c show ?thesis by blast
qed

theorem whole_word_gets_label_witness:
  "(''battery'', [''battery'', ''power'', ''charging'', ''charge'']) \<in> set feature_patterns
   \<and> py_lower ''Battery life is short'' = [] @ ''battery'' @ '' life is short''
   \<and> \<not> is_word_char (hd '' life is short'')
   \<and> ''battery'' \<in> set (review_features ''Battery life is short'')
   \<and> ''battery'' \<in> fst ` set (extract_features_from_reviews [''Battery life is short''])"
proof -
  have p: "(''battery'', [''battery'', ''power'', ''charging'', ''charge'']) \<in> set feature_patterns"
    by (simp add: feature_patterns_def)
  have l: "py_lower ''Battery life is short'' = [] @ ''battery'' @ '' life is short''"
    by code_simp
  have h: "\<not> is_word_char (hd '' life is short'')"
    by code_simp
  from whole_word_gets_label [OF p _ _ l, of "[''Battery life is short'']"] h p l
  show ?thesis by simp
qed

text \<open>
  Containing the category name as a substring is not enough: \<open>Batterylife\<close> contains
  \<open>battery\<close> and gets no label, and so does the review \<open>usability\<close>.
\<close>

theorem substring_without_label_counterexample:
  "sublist ''battery'' (py_lower ''Batterylife'')
   \<and> review_features ''Batterylife'' = []
   \<and> extract_features_from_reviews [''Batterylife''] = []
   \<and> sublist ''usability'' (py_lower ''usability'')
   \<and> review_features ''usability'' = []"
proof -
  have "str_in ''battery'' (py_lower ''Batterylife'')" "str_in ''usability'' (py_lower ''usability'')"
    by code_simp+
  moreover have "review_features ''Batterylife'' = []" "extract_features_from_reviews [''Batterylife''] = []"
    "review_features ''usability'' = []"
    by code_simp+
  ultimately show ?thesis by (simp add: str_in_sublist)
qed

section \<open>Selection of the text column\<close>

lemma matching_columns_iff:
  "c \<in> set (matching_columns keywords df) \<longleftrightarrow>
     c \<in> set (map fst df) \<and> (\<exists>k \<in> set keywords. sublist k (py_lower c))"
  by (auto simp: matching_columns_def list_ex_iff str_in_sublist)

lemma matching_columns_first:
  assumes "map fst df = before @ c # after"
    and "\<exists>k \<in> set keywords. sublist k (py_lower c)"
    and "\<forall>b \<in> set before. \<not> (\<exists>k \<in> set keywords. sublist k (py_lower b))"
  shows "\<exists>rest. matching_columns keywords df = c # rest"
proof -
  let ?P = "\<lambda>col. list_ex (\<lambda>keyword. str_in keyword (py_lower col)) keywords"
  have "filter ?P before = []"
    using assms(3) by (auto simp: filter_empty_conv list_ex_iff str_in_sublist)
  moreover have "?P c"
    using assms(2) by (auto simp: list_ex_iff str_in_sublist)
  ultimately have "matching_columns keywords df = c # filter ?P after"
    by (simp add: matching_columns_def assms(1))
  then show ?thesis by blast
qed

lemma column_present:
  assumes "c \<in> set (map fst df)"
  shows "\<exists>series. column df c = Inr series"
proof -
  from assms have "map_of df c \<noteq> None"
    by (simp add: map_of_eq_None_iff)
  then show ?thesis by (auto simp: column_def)
qed

lemma analyze_product_features_console:
  assumes "matching_columns review_keywords df = c # rest"
    and "column df c = Inr series"
  shows "take 5 (console (analyze_product_features now plots (Some df))) =
     [Starting, Loaded (len_df df), Using_column c, Extracting,
      Extracted (length (extract_features_from_reviews (map snd (review_items series))))]"
  unfolding analyze_product_features_def
  by (simp add: assms Let_def split: sum.splits prod.splits option.splits)

lemma no_text_column:
  assumes "\<forall>c \<in> set (map fst df). \<not> (\<exists>k \<in> set review_keywords. sublist k (py_lower c))"
  shows "analyze_product_features now plots (Some df) =
      \<lparr>console = [Starting, Loaded (len_df df), No_review_column], files = [], raised = None\<rparr>"
proof -
  have "c \<notin> set (matching_columns review_keywords df)" for c
    using assms unfolding matching_columns_iff by blast
  then have "matching_columns review_keywords df = []"
    by (cases "matching_columns review_keywords df") auto
  then show ?thesis
    by (simp add: analyze_product_features_def)
qed

lemma first_text_column:
  assumes "map fst df = before @ c # after"
    and "\<exists>k \<in> set review_keywords. sublist k (py_lower c)"
    and "\<forall>b \<in> set before. \<not> (\<exists>k \<in> set review_keywords. sublist k (py_lower b))"
  shows "\<exists>series. column df c = Inr series
            \<and> take 5 (console (analyze_product_features now plots (Some df))) =
                [Starting, Loaded (len_df df), Using_column c, Extracting,
                 Extracted (length (extract_features_from_reviews
                                      (map snd (review_items series))))]"
proof -
  from matching_columns_first [OF assms] obtain rest
    where m: "matching_columns review_keywords df = c # rest" ..
  from assms(1) have "c \<in> set (map fst df)" by simp
  from column_present [OF this] obtain series where s: "column df c = Inr series" ..
  from analyze_product_features_console [OF m s, of now plots] s
  show ?thesis by (intro exI [of _ series] conjI)
qed

text \<open>
  C7. When no column name contains, in lower case, one of the words \<open>review\<close>, \<open>text\<close>,
  \<open>comment\<close>, \<open>feedback\<close>, the run prints its start, the number of rows loaded and the
  message that no review column was found, and returns: it writes no file and raises
  nothing. Otherwise the text column is the first column in table order whose name does:
  the run names it in its third message and extracts the features from its cells.
\<close>

theorem text_column_selection:
  "((\<forall>c \<in> set (map fst df).
        \<not> (\<exists>k \<in> set [''review'', ''text'', ''comment'', ''feedback'']. sublist k (py_lower c)))
      \<longrightarrow> analyze_product_features now plots (Some df) =
            \<lparr>console = [Starting, Loaded (len_df df), No_review_column], files = [],
              raised = None\<rparr>)
   \<and> (map fst df = before @ c # after
        \<and> (\<exists>k \<in> set [''review'', ''text'', ''comment'', ''feedback'']. sublist k (py_lower c))
        \<and> (\<forall>b \<in> set before.
              \<not> (\<exists>k \<in> set [''review'', ''text'', ''comment'', ''feedback'']. sublist k (py_lower b)))
      \<longrightarrow> (\<exists>series. column df c = Inr series
            \<and> take 5 (console (analyze_product_features now plots (Some df))) =
                [Starting, Loaded (len_df df), Using_column c, Extracting,
                 Extracted (length (extract_features_from_reviews
                                      (map snd (review_items series))))]))"
  unfolding review_keywords_def [symmetric]
  using no_text_column [of df now plots] first_text_column [of df before c after now plots]
  by blast

theorem text_column_selection_witness:
  "analyze_product_features ''2024-01-01 00:00:00'' (\<lambda>fa. ([], None)) (Some plain_df) =
      \<lparr>console = [Starting, Loaded 1, No_review_column], files = [], raised = None\<rparr>
   \<and> map fst two_text_df = [''id''] @ ''Review_Text'' # [''comments'']
   \<and> sublist ''review'' (py_lower ''Review_Text'')
   \<and> take 5 (console (analyze_product_features ''2024-01-01 00:00:00'' (\<lambda>fa. ([], None))
         (Some two_text_df))) =
       [Starting, Loaded 0, Using_column ''Review_Text'', Extracting, Extracted 0]"
proof -
  have m0: "matching_columns review_keywords plain_df = []"
    by code_simp
  have none: "\<forall>c \<in> set (map fst plain_df).
      \<not> (\<exists>k \<in> set [''review'', ''text'', ''comment'', ''feedback'']. sublist k (py_lower c))"
    using matching_columns_iff [of _ review_keywords plain_df] m0
    unfolding review_keywords_def by auto
  have cols: "map fst two_text_df = [''id''] @ ''Review_Text'' # [''comments'']"
    by (simp add: two_text_df_def)
  have "str_in ''review'' (py_lower ''Review_Text'')"
    by code_simp
  then have hit: "sublist ''review'' (py_lower ''Review_Text'')"
    by (simp add: str_in_sublist)
  then have hit': "\<exists>k \<in> set [''review'', ''text'', ''comment'', ''feedback''].
      sublist k (py_lower ''Review_Text'')"
    by simp
  have "list_all (\<lambda>k. \<not> str_in k (py_lower ''id'')) [''review'', ''text'', ''comment'', ''feedback'']"
    by code_simp
  then have miss: "\<forall>b \<in> set [''id''].
      \<not> (\<exists>k \<in> set [''review'', ''text'', ''comment'', ''feedback'']. sublist k (py_lower b))"
    by (simp add: str_in_sublist)
  have len: "len_df plain_df = 1" "len_df two_text_df = 0"
    by (simp_all add: len_df_def plain_df_def two_text_df_def)
  have col: "column two_text_df ''Review_Text'' = Inr []"
    by (simp add: column_def two_text_df_def)
  have ex: "extract_features_from_reviews (map snd (review_items [])) = []"
    by code_simp
  have "(\<forall>c \<in> set (map fst plain_df).
        \<not> (\<exists>k \<in> set [''review'', ''text'', ''comment'', ''feedback'']. sublist k (py_lower c)))
      \<longrightarrow> analyze_product_features ''2024-01-01 00:00:00'' (\<lambda>fa. ([], None)) (Some plain_df) =
            \<lparr>console = [Starting, Loaded (len_df plain_df), No_review_column], files = [],
              raised = None\<rparr>"
    using text_column_selection [where df = plain_df and now = "''2024-01-01 00:00:00''"
      and plots = "\<lambda>fa. ([], None)"] by (rule conjunct1)
  from this none
  have "analyze_product_features ''2024-01-01 00:00:00'' (\<lambda>fa. ([], None)) (Some plain_df) =
      \<lparr>console = [Starting, Loaded (len_df plain_df), No_review_column], files = [], raised = None\<rparr>"
    by (rule mp)
  then have 1: "analyze_product_features ''2024-01-01 00:00:00'' (\<lambda>fa. ([], None)) (Some plain_df) =
      \<lparr>console = [Starting, Loaded 1, No_review_column], files = [], raised = None\<rparr>"
    by (simp only: len)
  have hyps: "map fst two_text_df = [''id''] @ ''Review_Text'' # [''comments'']
        \<and> (\<exists>k \<in> set [''review'', ''text'', ''comment'', ''feedback''].
              sublist k (py_lower ''Review_Text''))
        \<and> (\<forall>b \<in> set [''id''].
              \<not> (\<exists>k \<in> set [''review'', ''text'', ''comment'', ''feedback'']. sublist k (py_lower b)))"
    using cols hit' miss by (intro conjI)
  have "map fst two_text_df = [''id''] @ ''Review_Text'' # [''comments'']
        \<and> (\<exists>k \<in> set [''review'', ''text'', ''comment'', ''feedback''].
              sublist k (py_lower ''Review_Text''))
        \<and> (\<forall>b \<in> set [''id''].
              \<not> (\<exists>k \<in> set [''review'', ''text'', ''comment'', ''feedback'']. sublist k (py_lower b)))
      \<longrightarrow> (\<exists>series. column two_text_df ''Review_Text'' = Inr series
     \<and> take 5 (console (analyze_product_features ''2024-01-01 00:00:00'' (\<lambda>fa. ([], None))
         (Some two_text_df))) =
       [Starting, Loaded (len_df two_text_df), Using_column ''Review_Text'', Extracting,
        Extracted (length (extract_features_from_reviews (map snd (review_items series))))])"
    using text_column_selection [where df = two_text_df and before = "[''id'']"
      and c = "''Review_Text''" and after = "[''comments'']"
      and now = "''2024-01-01 00:00:00''" and plots = "\<lambda>fa. ([], None)"] by (rule conjunct2)
  from this hyps
  have "\<exists>series. column two_text_df ''Review_Text'' = Inr series
     \<and> take 5 (console (analyze_product_features ''2024-01-01 00:00:00'' (\<lambda>fa. ([], None))
         (Some two_text_df))) =
       [Starting, Loaded (len_df two_text_df), Using_column ''Review_Text'', Extracting,
        Extracted (length (extract_features_from_reviews (map snd (review_items series))))]"
    by (rule mp)
  then obtain series where series: "column two_text_df ''Review_Text'' = Inr series"
     and t: "take 5 (console (analyze_product_features ''2024-01-01 00:00:00'' (\<lambda>fa. ([], None))
         (Some two_text_df))) =
       [Starting, Loaded (len_df two_text_df), Using_column ''Review_Text'', Extracting,
        Extracted (length (extract_features_from_reviews (map snd (review_items series))))]"
    by blast
  from series col have "series = []" by simp
  with t have 2: "take 5 (console (analyze_product_features ''2024-01-01 00:00:00'' (\<lambda>fa. ([], None))
         (Some two_text_df))) =
       [Starting, Loaded 0, Using_column ''Review_Text'', Extracting, Extracted 0]"
    by (simp only: ex len list.size)
  from 1 2 cols hit show ?thesis by blast
qed

section \<open>The report of two runs\<close>










section \<open>The last section of the report\<close>











end
